theory Spec2Isabelle
  imports Complex_Main
begin

section \<open>Quantile regression forest: the data model\<close>

text \<open>
  The development follows \<^verbatim>\<open>pyquantregForest.py\<close>. Floating-point numbers are
  modelled by the reals; the two special values that the division of the weight step
  can produce (\<^verbatim>\<open>0.0/0 = nan\<close>, \<^verbatim>\<open>1.0/0 = inf\<close>) are kept apart in \<open>npfloat\<close>, so that a
  division by zero stays visible in the model. The arithmetic on \<open>npfloat\<close> is that of
  IEEE 754 on these special values.
\<close>

datatype error = AttributeError | ValueError | IndexError

datatype npfloat = Fin real | NaN | PInf | NInf

text \<open>A numpy array of floats with zero, one or two axes; \<open>Arr2 d rows\<close> has \<open>d\<close>
  columns, and every row has \<open>d\<close> entries.\<close>

datatype ndarray = Arr0 real | Arr1 "real list" | Arr2 nat "real list list"

text \<open>The attributes that the methods read or assign on \<^verbatim>\<open>self\<close>, each under the name the
  source uses (without the leading underscore); \<open>None\<close> is an attribute that has not
  been assigned, and reading it raises \<^verbatim>\<open>AttributeError\<close>.\<close>

record qforest =
  n_sample :: "nat option"
  input_dim :: "nat option"
  input_sample :: "ndarray option"
  output_sample :: "real list option"
  sample_nodes :: "nat list list option"
  nodesOfSamples :: "nat list list option"
  n_points :: "int option"
  outputSample :: "real list option"
  numSample :: "nat option"
  inputSample :: "ndarray option"
  oobID :: "nat list list option"
  numJobs :: "nat option"
  numTree :: "nat option"
  yCDF :: "npfloat list option"
  infYY :: "bool list list option"

text \<open>The collaborators, which are not part of the repository: the fitted random forest
  of scikit-learn (\<^verbatim>\<open>RandomForestRegressor.fit\<close>, \<^verbatim>\<open>self.apply\<close>, \<^verbatim>\<open>self.estimators_\<close> and
  \<^verbatim>\<open>tree_.apply\<close>), \<^verbatim>\<open>np.percentile\<close>, the two solvers of scipy and the random shuffle.
  Each is a parameter of the model; a collaborator that can raise returns a sum.\<close>

record collab =
  rf_fit :: "ndarray \<Rightarrow> real list \<Rightarrow> error option"
  n_estimators :: nat
  forest_apply :: "ndarray \<Rightarrow> error + nat list list"
  tree_apply :: "nat \<Rightarrow> ndarray \<Rightarrow> error + nat list"
  percentile :: "real list \<Rightarrow> real list \<Rightarrow> error + real list"
  fmin_cobyla :: "(real \<Rightarrow> real) \<Rightarrow> real \<Rightarrow> (real \<Rightarrow> npfloat) \<Rightarrow> real"
  fmin_slsqp :: "(real \<Rightarrow> real) \<Rightarrow> real \<Rightarrow> (real \<Rightarrow> npfloat) \<Rightarrow> real \<Rightarrow> real"
  shuffle :: "nat \<Rightarrow> nat \<Rightarrow> real list \<Rightarrow> real list"

text \<open>Sequencing of steps that can raise: the first error ends the computation.\<close>

definition bind_err :: "error + 'a \<Rightarrow> ('a \<Rightarrow> error + 'b) \<Rightarrow> error + 'b" where
  "bind_err r f = (case r of Inl e \<Rightarrow> Inl e | Inr v \<Rightarrow> f v)"

fun seq_err :: "(error + 'a) list \<Rightarrow> error + 'a list" where
  "seq_err [] = Inr []"
| "seq_err (r # rs) =
     (case r of Inl e \<Rightarrow> Inl e
      | Inr v \<Rightarrow> (case seq_err rs of Inl e \<Rightarrow> Inl e | Inr vs \<Rightarrow> Inr (v # vs)))"

definition attr :: "'a option \<Rightarrow> error + 'a" where
  "attr a = (case a of None \<Rightarrow> Inl AttributeError | Some v \<Rightarrow> Inr v)"

text \<open>\<^verbatim>\<open>w != 0\<close> on a float: \<^verbatim>\<open>nan != 0\<close> and \<^verbatim>\<open>inf != 0\<close> are both true.\<close>

fun np_nonzero :: "npfloat \<Rightarrow> bool" where
  "np_nonzero (Fin x) = (x \<noteq> 0)"
| "np_nonzero NaN = True"
| "np_nonzero PInf = True"
| "np_nonzero NInf = True"

fun np_add :: "npfloat \<Rightarrow> npfloat \<Rightarrow> npfloat" where
  "np_add (Fin a) (Fin b) = Fin (a + b)"
| "np_add NaN _ = NaN"
| "np_add _ NaN = NaN"
| "np_add PInf NInf = NaN"
| "np_add NInf PInf = NaN"
| "np_add PInf _ = PInf"
| "np_add _ PInf = PInf"
| "np_add NInf _ = NInf"
| "np_add _ NInf = NInf"

fun np_neg :: "npfloat \<Rightarrow> npfloat" where
  "np_neg (Fin a) = Fin (- a)"
| "np_neg NaN = NaN"
| "np_neg PInf = NInf"
| "np_neg NInf = PInf"

definition np_sub :: "npfloat \<Rightarrow> npfloat \<Rightarrow> npfloat" where
  "np_sub a b = np_add a (np_neg b)"

text \<open>\<^verbatim>\<open>x * r\<close> and \<^verbatim>\<open>x < 0.\<close> for a float \<open>x\<close> and a finite \<open>r\<close>.\<close>

fun np_mul_real :: "npfloat \<Rightarrow> real \<Rightarrow> npfloat" where
  "np_mul_real (Fin x) r = Fin (x * r)"
| "np_mul_real NaN r = NaN"
| "np_mul_real PInf r = (if r > 0 then PInf else if r < 0 then NInf else NaN)"
| "np_mul_real NInf r = (if r > 0 then NInf else if r < 0 then PInf else NaN)"

fun np_neg0 :: "npfloat \<Rightarrow> bool" where
  "np_neg0 (Fin x) = (x < 0)"
| "np_neg0 NaN = False"
| "np_neg0 PInf = False"
| "np_neg0 NInf = True"

definition np_sum :: "npfloat list \<Rightarrow> npfloat" where
  "np_sum ws = foldr np_add ws (Fin 0)"

text \<open>\<^verbatim>\<open>tmp.astype(float) / n_samples_nodes\<close>, entry by entry: a boolean over a count.\<close>

definition np_div_bool :: "bool \<Rightarrow> nat \<Rightarrow> npfloat" where
  "np_div_bool b c =
     (if c = 0 then (if b then PInf else NaN)
      else Fin ((if b then 1 else 0) / real c))"

text \<open>\<^verbatim>\<open>.mean(axis=1)\<close> of one row: the sum over the row's length; an empty row gives
  \<^verbatim>\<open>nan\<close>.\<close>

definition np_mean :: "npfloat list \<Rightarrow> npfloat" where
  "np_mean ws =
     (if ws = [] then NaN
      else (case np_sum ws of
              Fin s \<Rightarrow> Fin (s / real (length ws))
            | NaN \<Rightarrow> NaN
            | PInf \<Rightarrow> PInf
            | NInf \<Rightarrow> NInf))"

text \<open>\<^verbatim>\<open>x - alpha\<close> and \<^verbatim>\<open>x >= alpha\<close> for a float \<open>x\<close> and a finite \<open>alpha\<close>.\<close>

fun np_sub_real :: "npfloat \<Rightarrow> real \<Rightarrow> npfloat" where
  "np_sub_real (Fin x) a = Fin (x - a)"
| "np_sub_real NaN a = NaN"
| "np_sub_real PInf a = PInf"
| "np_sub_real NInf a = NInf"

fun np_ge_real :: "npfloat \<Rightarrow> real \<Rightarrow> bool" where
  "np_ge_real (Fin x) a = (a \<le> x)"
| "np_ge_real NaN a = False"
| "np_ge_real PInf a = True"
| "np_ge_real NInf a = False"

text \<open>\<^verbatim>\<open>b * w\<close> for a boolean \<open>b\<close> of the indicator matrix: \<^verbatim>\<open>0 * nan\<close> and
  \<^verbatim>\<open>0 * inf\<close> are \<^verbatim>\<open>nan\<close>.\<close>

fun np_mul_bool :: "bool \<Rightarrow> npfloat \<Rightarrow> npfloat" where
  "np_mul_bool b (Fin x) = Fin (if b then x else 0)"
| "np_mul_bool b NaN = NaN"
| "np_mul_bool b PInf = (if b then PInf else NaN)"
| "np_mul_bool b NInf = (if b then NInf else NaN)"

text \<open>Boolean-mask indexing \<^verbatim>\<open>a[mask]\<close>: the entries of \<open>a\<close> whose mask is true. The
  mask has one entry for each entry of \<open>a\<close>: the weight vector has one entry for each
  training sample, as the series of outputs has.\<close>

definition masked :: "'a list \<Rightarrow> bool list \<Rightarrow> 'a list" where
  "masked xs bs = map fst (filter snd (zip xs bs))"

section \<open>The pinball loss and the two callbacks of the optimiser\<close>

text \<open>\<^verbatim>\<open>check_function(y, yi, alpha)\<close>: \<^verbatim>\<open>u = y - yi; u * (alpha - (u < 0.) * 1.)\<close>,
  elementwise over \<open>y\<close>.\<close>

definition check_function :: "real list \<Rightarrow> real \<Rightarrow> real \<Rightarrow> real list" where
  "check_function y yi alpha =
     map (\<lambda>v. let u = v - yi in u * (alpha - (if u < 0 then 1 else 0) * 1)) y"

text \<open>\<^verbatim>\<open>_optFunc(yi, w, alpha)\<close>, with \<open>y\<close> the value of \<^verbatim>\<open>self._output_sample.values\<close>.
  The first statement computes \<^verbatim>\<open>alphai\<close> and never uses it. The weights enter the
  returned value through the mask \<^verbatim>\<open>w != 0\<close> alone.\<close>

definition optFunc :: "real list \<Rightarrow> real \<Rightarrow> npfloat list \<Rightarrow> real \<Rightarrow> real" where
  "optFunc y yi w alpha =
     sum_list (check_function (masked y (map np_nonzero w)) yi alpha)"

text \<open>\<^verbatim>\<open>_ieqFunc(yi, w, alpha)\<close>: \<^verbatim>\<open>w[y <= yi].sum() - alpha\<close>.\<close>

definition ieqFunc :: "real list \<Rightarrow> real \<Rightarrow> npfloat list \<Rightarrow> real \<Rightarrow> npfloat" where
  "ieqFunc y yi w alpha =
     np_sub_real (np_sum (masked w (map (\<lambda>v. v \<le> yi) y))) alpha"

text \<open>The weighted pinball loss, as a formula of its own, for comparison with \<open>optFunc\<close>.\<close>

definition weighted_pinball :: "real list \<Rightarrow> real list \<Rightarrow> real \<Rightarrow> real \<Rightarrow> real" where
  "weighted_pinball y w q alpha =
     (\<Sum>(v, wi)\<leftarrow>zip y w. wi * (v - q) * (alpha - (if v - q < 0 then 1 else 0)))"

section \<open>Fitting\<close>

fun shape0 :: "ndarray \<Rightarrow> error + nat" where
  "shape0 (Arr0 x) = Inl IndexError"
| "shape0 (Arr1 xs) = Inr (length xs)"
| "shape0 (Arr2 d rows) = Inr (length rows)"

fun shape1 :: "ndarray \<Rightarrow> error + nat" where
  "shape1 (Arr2 d rows) = Inr d"
| "shape1 _ = Inl IndexError"

fun size_of :: "ndarray \<Rightarrow> nat" where
  "size_of (Arr0 x) = 1"
| "size_of (Arr1 xs) = length xs"
| "size_of (Arr2 d rows) = length rows * d"

fun flat :: "ndarray \<Rightarrow> real list" where
  "flat (Arr0 x) = [x]"
| "flat (Arr1 xs) = xs"
| "flat (Arr2 d rows) = concat rows"

text \<open>An object on which no method has run yet: the class has no constructor of its
  own, and the constructor it inherits assigns none of these attributes.\<close>

definition fresh :: qforest where
  "fresh = \<lparr> n_sample = None, input_dim = None, input_sample = None,
     output_sample = None, sample_nodes = None, nodesOfSamples = None,
     n_points = None, outputSample = None, numSample = None, inputSample = None,
     oobID = None, numJobs = None, numTree = None, yCDF = None, infYY = None \<rparr>"

text \<open>\<^verbatim>\<open>fit(self, X, y)\<close>. A vector, or an array with one column, has dimension 1;
  otherwise the shape of \<open>X\<close> is unpacked into two names, which needs two axes.\<close>

definition fit :: "collab \<Rightarrow> qforest \<Rightarrow> ndarray \<Rightarrow> real list \<Rightarrow> error + qforest" where
  "fit c self X y =
     bind_err (shape0 X) (\<lambda>n0.
     bind_err (if n0 = size_of X then Inr (n0, 1)
               else (case X of Arr2 d rows \<Rightarrow> Inr (length rows, d)
                     | _ \<Rightarrow> Inl ValueError)) (\<lambda>(n, d).
     (case rf_fit c X y of
        Some e \<Rightarrow> Inl e
      | None \<Rightarrow>
          bind_err (forest_apply c X) (\<lambda>nodes.
            Inr (self\<lparr> n_sample := Some n, input_dim := Some d,
                       input_sample := Some X, output_sample := Some y,
                       sample_nodes := Some nodes \<rparr>)))))"

section \<open>Checking the query\<close>

text \<open>\<^verbatim>\<open>X.resize(n, 1)\<close>, in place. The array is bound in the frame of the caller as
  well, and numpy refuses to change the number of elements of an array that is
  referenced elsewhere; with the number of elements unchanged only the shape changes.\<close>

definition resize_col :: "ndarray \<Rightarrow> nat \<Rightarrow> error + ndarray" where
  "resize_col X n =
     (if size_of X = n then Inr (Arr2 1 (map (\<lambda>x. [x]) (flat X))) else Inl ValueError)"

text \<open>The body of the \<^verbatim>\<open>try\<close> of \<^verbatim>\<open>_check_input\<close>, on the pair \<open>(n, d)\<close>; the dimension
  of the forest is \<open>fdim\<close>.\<close>

definition check_try :: "nat \<Rightarrow> ndarray \<Rightarrow> nat \<Rightarrow> error + nat \<times> nat" where
  "check_try fdim X n =
     bind_err (shape1 X) (\<lambda>d.
       if d \<noteq> fdim then (if n = fdim then Inr (1, n) else Inl ValueError)
       else Inr (n, d))"

text \<open>The handler: \<^verbatim>\<open>except:\<close> catches every exception of the \<^verbatim>\<open>try\<close>, the
  \<^verbatim>\<open>ValueError\<close> raised there included, and starts again from \<open>d = 1\<close>.\<close>

definition check_except :: "nat \<Rightarrow> nat \<Rightarrow> error + nat \<times> nat" where
  "check_except fdim n =
     (let d = 1 in
      if d \<noteq> fdim then (if n = fdim then Inr (1, n) else Inl ValueError)
      else Inr (n, d))"

definition check_input :: "qforest \<Rightarrow> ndarray \<Rightarrow> error + ndarray \<times> nat" where
  "check_input self X =
     bind_err (shape0 X) (\<lambda>n0.
     bind_err (attr (input_dim self)) (\<lambda>fdim.
     bind_err (case check_try fdim X n0 of
                 Inr r \<Rightarrow> Inr r
               | Inl _ \<Rightarrow> check_except fdim n0) (\<lambda>(n, d).
       if n > 1 \<and> d = 1
       then bind_err (resize_col X n) (\<lambda>X'. Inr (X', n))
       else Inr (X, n))))"

section \<open>The grid of the distribution function\<close>

text \<open>\<^verbatim>\<open>Series.min()\<close> and \<^verbatim>\<open>Series.max()\<close>: \<^verbatim>\<open>nan\<close> on an empty series.\<close>

definition series_min :: "real list \<Rightarrow> npfloat" where
  "series_min y = (if y = [] then NaN else Fin (Min (set y)))"

definition series_max :: "real list \<Rightarrow> npfloat" where
  "series_max y = (if y = [] then NaN else Fin (Max (set y)))"

text \<open>\<^verbatim>\<open>np.linspace(a, b, n)\<close> for \<open>n > 0\<close>: \<open>n\<close> evenly spaced values from \<open>a\<close> to \<open>b\<close>,
  both ends included; the single value \<open>a\<close> when \<open>n = 1\<close>.\<close>

definition linspace_real :: "real \<Rightarrow> real \<Rightarrow> nat \<Rightarrow> real list" where
  "linspace_real a b n =
     map (\<lambda>i. if n = 1 then a else a + real i * ((b - a) / real (n - 1))) [0..<n]"

fun linspace :: "npfloat \<Rightarrow> npfloat \<Rightarrow> nat \<Rightarrow> npfloat list" where
  "linspace (Fin a) (Fin b) n = map Fin (linspace_real a b n)"
| "linspace _ _ n = replicate n NaN"

text \<open>\<^verbatim>\<open>outMatrix <= cdfMatrix\<close> for one grid value: a comparison with \<^verbatim>\<open>nan\<close> is
  false.\<close>

fun le_grid :: "real \<Rightarrow> npfloat \<Rightarrow> bool" where
  "le_grid v (Fin g) = (v \<le> g)"
| "le_grid v NaN = False"
| "le_grid v PInf = True"
| "le_grid v NInf = False"

text \<open>\<^verbatim>\<open>setPrecisionOfCDF(self, n_points)\<close>. It reads \<^verbatim>\<open>self._outputSample\<close> and
  \<^verbatim>\<open>self._numSample\<close>. The indicator matrix is stored transposed: one row for each
  grid value, one column for each training output.\<close>

definition setPrecisionOfCDF :: "qforest \<Rightarrow> int \<Rightarrow> error + qforest" where
  "setPrecisionOfCDF self npts =
     bind_err (attr (outputSample self)) (\<lambda>y.
     bind_err (if npts = 0 then Inr (map Fin (sort y))
               else if npts < 0 then Inl ValueError
               else Inr (linspace (series_min y) (series_max y) (nat npts))) (\<lambda>grid.
     bind_err (attr (numSample self)) (\<lambda>ns.
       if ns \<noteq> length y then Inl ValueError
       else Inr (self\<lparr> yCDF := Some grid,
                        infYY := Some (map (\<lambda>g. map (\<lambda>v. le_grid v g) y) grid) \<rparr>))))"

section \<open>The weights\<close>

text \<open>One pass of the loop over the queries, in full-forest mode: \<open>sample_node\<close> has a row
  for each training sample and a column for each tree, and \<open>xq\<close> is the column of
  \<^verbatim>\<open>X_nodes\<close> of the query, the leaf of the query in each tree. Every row is as long as
  \<open>xq\<close>.\<close>

definition leaf_match :: "nat list list \<Rightarrow> nat list \<Rightarrow> bool list list" where
  "leaf_match sample_node xq = map (\<lambda>row. map2 (=) row xq) sample_node"

text \<open>\<^verbatim>\<open>tmp.sum(axis=0)\<close>: for each column, the number of true entries.\<close>

definition n_samples_nodes :: "bool list list \<Rightarrow> nat \<Rightarrow> nat list" where
  "n_samples_nodes tmp ntree =
     map (\<lambda>t. length (filter (\<lambda>row. row ! t) tmp)) [0..<ntree]"

definition forest_weight :: "nat list list \<Rightarrow> nat list \<Rightarrow> npfloat list" where
  "forest_weight sample_node xq =
     (let tmp = leaf_match sample_node xq;
          cnt = n_samples_nodes tmp (length xq);
          weight = map (\<lambda>row. map2 np_div_bool row cnt) tmp
      in map np_mean weight)"

text \<open>The same pass in single-tree mode: \<open>sample_node\<close> is one column of leaf
  identifiers and \<open>leaf\<close> the leaf of the query; the weight is returned as it is.\<close>

definition tree_weight :: "nat list \<Rightarrow> nat \<Rightarrow> npfloat list" where
  "tree_weight sample_node leaf =
     (let tmp = map (\<lambda>s. s = leaf) sample_node;
          cnt = length (filter (\<lambda>b. b) tmp)
      in map (\<lambda>b. np_div_bool b cnt) tmp)"

section \<open>The two ways to a quantile\<close>

text \<open>\<^verbatim>\<open>self._infYY.dot(weight).ravel()\<close>: every row of the indicator matrix times the
  weight; rows of another length than the weight are a shape mismatch.\<close>

definition np_dot :: "bool list list \<Rightarrow> npfloat list \<Rightarrow> error + npfloat list" where
  "np_dot M w =
     (if list_all (\<lambda>row. length row = length w) M
      then Inr (map (\<lambda>row. np_sum (map2 np_mul_bool row w)) M)
      else Inl ValueError)"

text \<open>\<^verbatim>\<open>self._yCDF.values[CDF >= alphai][0]\<close>: the first grid value, in the order of the
  grid, at which the distribution function has reached \<open>alphai\<close>; indexing the empty
  selection raises \<^verbatim>\<open>IndexError\<close>, and so does a mask of another length than the grid.\<close>

definition first_ge :: "npfloat list \<Rightarrow> npfloat list \<Rightarrow> real \<Rightarrow> error + npfloat" where
  "first_ge grid cdf alphai =
     (if length cdf \<noteq> length grid then Inl IndexError
      else (case masked grid (map (\<lambda>p. np_ge_real p alphai) cdf) of
              [] \<Rightarrow> Inl IndexError
            | g # _ \<Rightarrow> Inr g))"

text \<open>The branch \<^verbatim>\<open>else\<close> of \<^verbatim>\<open>if do_optim\<close>, for one query.\<close>

definition invert_row :: "qforest \<Rightarrow> real list \<Rightarrow> npfloat list \<Rightarrow> error + npfloat list" where
  "invert_row self alpha weight =
     bind_err (attr (infYY self)) (\<lambda>M.
     bind_err (np_dot M weight) (\<lambda>cdf.
       seq_err (map (\<lambda>alphai.
         bind_err (attr (yCDF self)) (\<lambda>grid. first_ge grid cdf alphai)) alpha)))"

text \<open>The branch \<^verbatim>\<open>if do_optim\<close>, for one query: the start \<open>y0\<close> from \<^verbatim>\<open>np.percentile\<close> on
  the outputs of non-zero weight, then one call of the solver for each level. The name of
  the method is looked at inside the loop over the levels.\<close>

definition optim_row ::
  "collab \<Rightarrow> qforest \<Rightarrow> real list \<Rightarrow> string \<Rightarrow> npfloat list \<Rightarrow> error + npfloat list" where
  "optim_row c self alpha opt_method weight =
     bind_err (attr (output_sample self)) (\<lambda>y.
     bind_err (percentile c (masked y (map np_nonzero weight))
                 (map (\<lambda>a. a * 100) alpha)) (\<lambda>y0.
       seq_err (map (\<lambda>(i, alphai).
         if opt_method = ''Cobyla'' then
           (if i < length y0
            then Inr (Fin (fmin_cobyla c (\<lambda>q. optFunc y q weight alphai) (y0 ! i)
                             (\<lambda>q. ieqFunc y q weight alphai)))
            else Inl IndexError)
         else if opt_method = ''SQP'' then
           (if i < length y0
            then (let epsilon = 1 / 10 * \<bar>y0 ! i\<bar>
                  in Inr (Fin (fmin_slsqp c (\<lambda>q. optFunc y q weight alphai) (y0 ! i)
                                 (\<lambda>q. ieqFunc y q weight alphai) epsilon)))
            else Inl IndexError)
         else Inl ValueError) (enumerate 0 alpha))))"

section \<open>computeQuantile\<close>

text \<open>\<^verbatim>\<open>X[0]\<close>.\<close>

fun index0 :: "ndarray \<Rightarrow> error + ndarray" where
  "index0 (Arr1 (x # xs)) = Inr (Arr0 x)"
| "index0 (Arr2 d (r # rows)) = Inr (Arr1 r)"
| "index0 _ = Inl IndexError"

text \<open>\<^verbatim>\<open>X_nodes.resize((1, n_quantiles))\<close> on the array that \<^verbatim>\<open>tree.apply\<close> has just made:
  cut or filled with zeros to \<open>n\<close> entries.\<close>

definition resize_nodes :: "nat list \<Rightarrow> nat \<Rightarrow> nat list" where
  "resize_nodes xs n = take n (xs @ replicate (n - length xs) 0)"

text \<open>\<^verbatim>\<open>values[:, iTree]\<close>: column \<open>i\<close> of a matrix given by its rows.\<close>

definition column :: "nat list list \<Rightarrow> nat \<Rightarrow> error + nat list" where
  "column rows i =
     (if list_all (\<lambda>row. i < length row) rows then Inr (map (\<lambda>row. row ! i) rows)
      else Inl IndexError)"

text \<open>The leaves, lines 142 to 152: for each query \<open>k\<close> the weight of the training
  samples, computed by the first statements of the loop body. In full-forest mode
  column \<open>k\<close> of the transposed result of \<^verbatim>\<open>self.apply\<close> is row \<open>k\<close> of the result.\<close>

definition query_weights ::
  "collab \<Rightarrow> qforest \<Rightarrow> ndarray \<Rightarrow> nat \<Rightarrow> int \<Rightarrow> error + (error + npfloat list) list" where
  "query_weights c self X n_quantiles iTree =
     (if iTree < 0 then
        bind_err (if n_quantiles = 1 \<and> input_dim self = Some 1
                  then bind_err (index0 X) (forest_apply c)
                  else forest_apply c X) (\<lambda>X_nodes.
        bind_err (attr (sample_nodes self)) (\<lambda>sample_node.
          Inr (map (\<lambda>k. if k < length X_nodes
                          then Inr (forest_weight sample_node (X_nodes ! k))
                          else Inl IndexError) [0..<n_quantiles])))
      else
        bind_err (if nat iTree < n_estimators c then Inr (nat iTree)
                  else Inl IndexError) (\<lambda>i.
        bind_err (tree_apply c i X) (\<lambda>leaves.
        let X_nodes = resize_nodes leaves n_quantiles in
        bind_err (attr (nodesOfSamples self)) (\<lambda>nodes.
        bind_err (column nodes i) (\<lambda>sample_node.
          Inr (map (\<lambda>k. Inr (tree_weight sample_node (X_nodes ! k)))
                 [0..<n_quantiles]))))))"

datatype qresult = Scalar npfloat | Sequence "npfloat list" | Matrix "npfloat list list"

text \<open>The \<^verbatim>\<open>return\<close> statements, lines 208 to 213.\<close>

definition shape_result :: "npfloat list list \<Rightarrow> nat \<Rightarrow> nat \<Rightarrow> error + qresult" where
  "shape_result quantiles n_quantiles n_alphas =
     (if n_quantiles = 1 \<and> n_alphas = 1 then
        (case quantiles of
           (q # _) # _ \<Rightarrow> Inr (Scalar q)
         | _ \<Rightarrow> Inl IndexError)
      else if n_quantiles = 1 \<or> n_alphas = 1 then Inr (Sequence (concat quantiles))
      else Inr (Matrix quantiles))"

text \<open>\<^verbatim>\<open>computeQuantile(self, X, alpha, do_optim, verbose, doSaveCDF, iTree, opt_method)\<close>
  for an array \<open>X\<close> and a list \<open>alpha\<close> of levels. \<^verbatim>\<open>verbose\<close> only sets what the solver
  prints. The copy \<^verbatim>\<open>self._CDF\<close> kept under \<^verbatim>\<open>doSaveCDF\<close> is written and never read, and
  is left out; the attributes that \<^verbatim>\<open>setPrecisionOfCDF\<close> assigns are used by the rest of
  the call.\<close>

definition computeQuantile ::
  "collab \<Rightarrow> qforest \<Rightarrow> ndarray \<Rightarrow> real list \<Rightarrow> bool \<Rightarrow> bool \<Rightarrow> int \<Rightarrow> string
     \<Rightarrow> error + qresult" where
  "computeQuantile c self X0 alpha do_optim doSaveCDF iTree opt_method =
     bind_err (check_input self X0) (\<lambda>(X, n_quantiles).
     let n_alphas = length alpha in
     bind_err (if doSaveCDF \<or> \<not> do_optim
               then bind_err (attr (n_points self)) (setPrecisionOfCDF self)
               else Inr self) (\<lambda>self'.
     bind_err (query_weights c self' X n_quantiles iTree) (\<lambda>weights.
     bind_err (seq_err (map (\<lambda>w. bind_err w (\<lambda>weight.
                 if do_optim then optim_row c self' alpha opt_method weight
                 else invert_row self' alpha weight)) weights)) (\<lambda>quantiles.
       shape_result quantiles n_quantiles n_alphas))))"

text \<open>The call with a Python number for \<open>X\<close> and one for \<open>alpha\<close>: both are wrapped in a
  list first.\<close>

definition computeQuantile_number ::
  "collab \<Rightarrow> qforest \<Rightarrow> real \<Rightarrow> real \<Rightarrow> bool \<Rightarrow> bool \<Rightarrow> int \<Rightarrow> string
     \<Rightarrow> error + qresult" where
  "computeQuantile_number c self x a do_optim doSaveCDF iTree opt_method =
     computeQuantile c self (Arr1 [x]) [a] do_optim doSaveCDF iTree opt_method"

section \<open>The importance of the input dimensions\<close>

text \<open>An operation on two vectors under numpy's broadcasting: equal lengths go entry by
  entry, a vector of one entry is repeated, any other pair of lengths is refused.\<close>

definition bc2 :: "('a \<Rightarrow> 'b \<Rightarrow> 'c) \<Rightarrow> 'a list \<Rightarrow> 'b list \<Rightarrow> error + 'c list" where
  "bc2 f xs ys =
     (if length xs = length ys then Inr (map2 f xs ys)
      else (case xs of
              [x] \<Rightarrow> Inr (map (f x) ys)
            | _ \<Rightarrow> (case ys of
                      [y] \<Rightarrow> Inr (map (\<lambda>x. f x y) xs)
                    | _ \<Rightarrow> Inl ValueError)))"

text \<open>\<^verbatim>\<open>u * (alpha - (u < 0.) * 1.)\<close> for one entry \<open>u\<close>.\<close>

definition check_value :: "npfloat \<Rightarrow> real \<Rightarrow> npfloat" where
  "check_value u alpha = np_mul_real u (alpha - (if np_neg0 u then 1 else 0) * 1)"

text \<open>\<^verbatim>\<open>check_function(Yobs, Yest, alpha).mean()\<close> with the estimates that
  \<^verbatim>\<open>computeQuantile\<close> returned and the list of levels.\<close>

definition check_rows :: "real list \<Rightarrow> npfloat list \<Rightarrow> real list \<Rightarrow> error + npfloat list" where
  "check_rows yobs est alpha =
     bind_err (bc2 (\<lambda>v e. np_sub (Fin v) e) yobs est) (\<lambda>u. bc2 check_value u alpha)"

definition mean_check :: "real list \<Rightarrow> qresult \<Rightarrow> real list \<Rightarrow> error + npfloat" where
  "mean_check yobs yest alpha =
     bind_err (case yest of
                 Scalar e \<Rightarrow> check_rows yobs [e] alpha
               | Sequence es \<Rightarrow> check_rows yobs es alpha
               | Matrix rows \<Rightarrow>
                   bind_err (seq_err (map (\<lambda>row. check_rows yobs row alpha) rows))
                     (\<lambda>rs. Inr (concat rs))) (\<lambda>vs. Inr (np_mean vs))"

text \<open>Indexing with a list of positions: \<^verbatim>\<open>a[oob]\<close> and \<^verbatim>\<open>a[oob, :]\<close>.\<close>

definition take_idx :: "'a list \<Rightarrow> nat list \<Rightarrow> error + 'a list" where
  "take_idx xs idx =
     (if list_all (\<lambda>i. i < length xs) idx then Inr (map (\<lambda>i. xs ! i) idx)
      else Inl IndexError)"

fun take_rows :: "ndarray \<Rightarrow> nat list \<Rightarrow> error + ndarray" where
  "take_rows (Arr2 d rows) idx = bind_err (take_idx rows idx) (\<lambda>rs. Inr (Arr2 d rs))"
| "take_rows _ idx = Inl IndexError"

text \<open>\<^verbatim>\<open>np.random.shuffle(X_oob_perm[:, j])\<close> on a copy of the array: column \<open>j\<close> is
  replaced by its shuffle, the draw being that of tree \<open>i\<close> and dimension \<open>j\<close>.\<close>

fun shuffle_column :: "collab \<Rightarrow> nat \<Rightarrow> nat \<Rightarrow> ndarray \<Rightarrow> error + ndarray" where
  "shuffle_column c i j (Arr2 d rows) =
     (if j < d
      then Inr (Arr2 d (map2 (\<lambda>r v. r[j := v]) rows
                          (shuffle c i j (map (\<lambda>r. r ! j) rows))))
      else Inl IndexError)"
| "shuffle_column c i j _ = Inl IndexError"

definition computeImportanceOfTree ::
  "collab \<Rightarrow> qforest \<Rightarrow> real list \<Rightarrow> nat \<Rightarrow> error + npfloat list" where
  "computeImportanceOfTree c self alpha i =
     bind_err (attr (oobID self)) (\<lambda>ids.
     bind_err (if i < length ids then Inr (ids ! i) else Inl IndexError) (\<lambda>oob.
     bind_err (attr (inputSample self)) (\<lambda>xs.
     bind_err (take_rows xs oob) (\<lambda>X_oob.
     bind_err (attr (outputSample self)) (\<lambda>ys.
     bind_err (take_idx ys oob) (\<lambda>Yobs_oob.
     bind_err (computeQuantile c self X_oob alpha True False (int i) ''Cobyla'')
       (\<lambda>Yest_oob.
     bind_err (mean_check Yobs_oob Yest_oob alpha) (\<lambda>baseError.
     bind_err (attr (input_dim self)) (\<lambda>d.
     bind_err (seq_err (map (\<lambda>j.
                 bind_err (shuffle_column c i j X_oob) (\<lambda>X_oob_perm.
                 bind_err (computeQuantile c self X_oob_perm alpha True False (int i)
                             ''Cobyla'') (\<lambda>Yest_oob_perm.
                   mean_check Yobs_oob Yest_oob_perm alpha))) [0..<d])) (\<lambda>permError.
       Inr (map (\<lambda>p. np_sub p baseError) permError)))))))))))"

text \<open>\<^verbatim>\<open>compute_importance(self, alpha)\<close>: the pool maps the trees in order, and the
  mean along the first axis is taken entry by entry over the trees.\<close>

definition compute_importance :: "collab \<Rightarrow> qforest \<Rightarrow> real list \<Rightarrow> error + qresult" where
  "compute_importance c self alpha =
     bind_err (attr (numJobs self)) (\<lambda>jobs.
     bind_err (attr (numTree self)) (\<lambda>ntree.
     bind_err (seq_err (map (computeImportanceOfTree c self alpha) [0..<ntree]))
       (\<lambda>errors.
         (case errors of
            [] \<Rightarrow> Inr (Scalar NaN)
          | e # _ \<Rightarrow>
              Inr (Sequence (map (\<lambda>j. np_mean (map (\<lambda>v. v ! j) errors))
                               [0..<length e]))))))"

section \<open>The quantities the statements speak of\<close>




text \<open>The attributes that no method assigns: \<open>fit\<close> and \<open>setPrecisionOfCDF\<close> are the
  only methods that assign attributes, and neither assigns one of these.\<close>

definition unassigned :: "qforest \<Rightarrow> bool" where
  "unassigned self \<longleftrightarrow>
     nodesOfSamples self = None \<and> n_points self = None \<and> outputSample self = None \<and>
     numSample self = None \<and> inputSample self = None \<and> oobID self = None \<and>
     numJobs self = None \<and> numTree self = None"

text \<open>A forest of two stumps on inputs of dimension 2, for evaluating the model: tree 0
  splits the first coordinate at 1, tree 1 the second at 0, and the leaves are numbered
  1 and 2. The percentile is replaced by the first of the values and each solver
  returns its start.\<close>

definition demo_leaves :: "real list \<Rightarrow> nat list" where
  "demo_leaves r = [if r ! 0 \<le> 1 then 1 else 2, if r ! 1 \<le> 0 then 1 else 2]"

definition demo :: collab where
  "demo = \<lparr> rf_fit = (\<lambda>X y. None),
     n_estimators = 2,
     forest_apply = (\<lambda>X. case X of Arr2 d rows \<Rightarrow> Inr (map demo_leaves rows)
                              | _ \<Rightarrow> Inl ValueError),
     tree_apply = (\<lambda>t X. case X of
                              Arr2 d rows \<Rightarrow> Inr (map (\<lambda>r. demo_leaves r ! t) rows)
                            | _ \<Rightarrow> Inl ValueError),
     percentile = (\<lambda>vals qs. Inr (map (\<lambda>q. case vals of [] \<Rightarrow> 0 | v # _ \<Rightarrow> v) qs)),
     fmin_cobyla = (\<lambda>f x0 g. x0),
     fmin_slsqp = (\<lambda>f x0 g eps. x0),
     shuffle = (\<lambda>i j col. rev col) \<rparr>"

definition demo_X :: ndarray where
  "demo_X = Arr2 2 [[0, 0], [1, 0], [2, 1], [3, 1]]"

definition demo_y :: "real list" where
  "demo_y = [0, 1, 2, 3]"

text \<open>The state after \<open>fit\<close> on these four samples.\<close>

definition demo_model :: qforest where
  "demo_model = fresh\<lparr> n_sample := Some 4, input_dim := Some 2,
     input_sample := Some demo_X, output_sample := Some demo_y,
     sample_nodes := Some [[1, 1], [1, 1], [2, 2], [2, 2]] \<rparr>"

text \<open>The weighted empirical distribution function at \<open>g\<close>: the sum of the weights of
  the training outputs that are at most \<open>g\<close>.\<close>

definition wcdf :: "real list \<Rightarrow> real list \<Rightarrow> real \<Rightarrow> real" where
  "wcdf y ws g = (\<Sum>(v, w)\<leftarrow>zip y ws. if v \<le> g then w else 0)"

text \<open>The grid that \<open>setPrecisionOfCDF\<close> builds from a non-empty series of outputs.\<close>

definition cdf_grid :: "real list \<Rightarrow> int \<Rightarrow> real list" where
  "cdf_grid y npts =
     (if npts = 0 then sort y
      else linspace_real (Min (set y)) (Max (set y)) (nat npts))"

text \<open>The state after \<open>fit\<close> on the four samples, with the three attributes that the
  grid needs assigned by hand.\<close>

definition cdf_model :: qforest where
  "cdf_model = demo_model\<lparr> n_points := Some 0, outputSample := Some demo_y,
     numSample := Some 4 \<rparr>"

text \<open>Modelled from the spec: the optimizer collaborator (scipy's \<^verbatim>\<open>fmin_cobyla\<close> and
  \<^verbatim>\<open>fmin_slsqp\<close>, which are not part of the repository) is "a constrained scalar
  minimizer accepting an objective, one inequality constraint, a starting point, and
  returning the argmin": a point where the constraint is non-negative and at which the
  objective is least among such points.\<close>

definition constrained_argmin :: "(real \<Rightarrow> real) \<Rightarrow> (real \<Rightarrow> npfloat) \<Rightarrow> real \<Rightarrow> bool" where
  "constrained_argmin f g q \<longleftrightarrow>
     np_ge_real (g q) 0 \<and> (\<forall>q'. np_ge_real (g q') 0 \<longrightarrow> f q \<le> f q')"

text \<open>The state that \<open>setPrecisionOfCDF(0)\<close> makes of it.\<close>

definition grid_model :: qforest where
  "grid_model = cdf_model\<lparr> yCDF := Some [Fin 0, Fin 1, Fin 2, Fin 3],
     infYY := Some [[True, False, False, False], [True, True, False, False],
                    [True, True, True, False], [True, True, True, True]] \<rparr>"

text \<open>The small forest with a solver that tries the outputs 0 and 1 in turn and returns
  the first at which the constraint holds.\<close>

definition demo_exact :: collab where
  "demo_exact = demo\<lparr> fmin_cobyla := (\<lambda>f x0 g. if np_ge_real (g 0) 0 then 0 else 1) \<rparr>"

text \<open>Modelled from the spec: the contract of the optimizer collaborator, "returning the
  argmin", for the solver that \<open>opt_method\<close> names and the problem that the optimisation
  branch gives it for the level \<open>a\<close>: from whatever start (and with whatever step), it
  returns a minimiser of \<open>_optFunc\<close> among the points where \<open>_ieqFunc\<close> is non-negative.\<close>

definition solver_exact_on ::
  "collab \<Rightarrow> string \<Rightarrow> real list \<Rightarrow> npfloat list \<Rightarrow> real \<Rightarrow> bool" where
  "solver_exact_on c opt_method y w a \<longleftrightarrow>
     (opt_method = ''Cobyla'' \<longrightarrow>
        (\<forall>x0. constrained_argmin (\<lambda>q. optFunc y q w a) (\<lambda>q. ieqFunc y q w a)
                (fmin_cobyla c (\<lambda>q. optFunc y q w a) x0 (\<lambda>q. ieqFunc y q w a))))
     \<and> (opt_method = ''SQP'' \<longrightarrow>
        (\<forall>x0 eps. constrained_argmin (\<lambda>q. optFunc y q w a) (\<lambda>q. ieqFunc y q w a)
                (fmin_slsqp c (\<lambda>q. optFunc y q w a) x0 (\<lambda>q. ieqFunc y q w a) eps)))"

section \<open>The objective of the optimisation strategy\<close>

text \<open>
  C1 (as stated: the objective is the weighted pinball loss). At the outputs \<open>0, 2\<close>
  with weights \<open>1/2, 1/2\<close>, level \<open>1/2\<close> and candidate \<open>1\<close>, the value of \<open>_optFunc\<close>
  differs from the weighted pinball loss.
\<close>

theorem optFunc_weighted_counterexample:
  "optFunc [0, 2] 1 [Fin (1/2), Fin (1/2)] (1/2)
     \<noteq> weighted_pinball [0, 2] [1/2, 1/2] 1 (1/2)"
  by (simp add: optFunc_def check_function_def masked_def weighted_pinball_def Let_def)

text \<open>
  C1 (amended). For every weight vector, level and candidate \<open>q\<close>, the value of the
  objective is the sum, over the training samples whose weight is not zero, of
  \<open>(y\<^sub>i - q) * (alpha - 1{y\<^sub>i - q < 0})\<close>: the weights select the samples and do not
  multiply the terms.
\<close>

theorem optFunc_unweighted_on_support:
  "optFunc y q w alpha =
     (\<Sum>(v, wi)\<leftarrow>zip y w.
        if np_nonzero wi then (v - q) * (alpha - (if v - q < 0 then 1 else 0)) else 0)"
  unfolding optFunc_def check_function_def masked_def
  by (induction y w rule: list_induct2') (simp_all add: Let_def)

section \<open>The weights of the full forest\<close>

lemma np_sum_Fin: "np_sum (map Fin xs) = Fin (sum_list xs)"
  by (induction xs) (simp_all add: np_sum_def)




lemma map2_eq_nth:
  "length row = length xq \<Longrightarrow> map2 f row xq = map (\<lambda>t. f (row ! t) (xq ! t)) [0..<length xq]"
  by (rule nth_equalityI) simp_all












section \<open>What fit leaves unassigned\<close>

lemma unassigned_fresh: "unassigned fresh"
  by (simp add: unassigned_def fresh_def)

lemma fit_unassigned:
  "fit c self X y = Inr m \<Longrightarrow> unassigned self \<Longrightarrow> unassigned m"
  by (auto simp: fit_def bind_err_def unassigned_def
      split: sum.splits option.splits if_splits ndarray.splits)

lemma setPrecisionOfCDF_unassigned:
  "setPrecisionOfCDF self p = Inr m \<Longrightarrow> unassigned self \<Longrightarrow> unassigned m"
  by (auto simp: setPrecisionOfCDF_def bind_err_def unassigned_def attr_def
      split: sum.splits option.splits if_splits)

lemma fit_fresh_unassigned: "fit c fresh X y = Inr m \<Longrightarrow> unassigned m"
  using fit_unassigned unassigned_fresh by blast

lemma fit_assigns:
  "fit c self X y = Inr m \<Longrightarrow>
     output_sample m = Some y \<and> n_sample m \<noteq> None \<and> input_dim m \<noteq> None
       \<and> sample_nodes m \<noteq> None"
  by (auto simp: fit_def bind_err_def
      split: sum.splits option.splits if_splits ndarray.splits)

lemma setPrecisionOfCDF_unassigned_raises:
  "unassigned self \<Longrightarrow> setPrecisionOfCDF self p = Inl AttributeError"
  by (simp add: setPrecisionOfCDF_def bind_err_def unassigned_def attr_def)

lemma computeQuantile_cdf_raises:
  assumes "unassigned self" "check_input self X0 = Inr (X, n)" "doSaveCDF \<or> \<not> do_optim"
  shows "computeQuantile c self X0 alpha do_optim doSaveCDF iTree opt_method
           = Inl AttributeError"
  using assms by (auto simp: computeQuantile_def bind_err_def unassigned_def attr_def)

lemma computeQuantile_tree_raises:
  assumes "unassigned self" "check_input self X0 = Inr (X, n)"
    "0 \<le> iTree" "nat iTree < n_estimators c" "tree_apply c (nat iTree) X = Inr leaves"
  shows "computeQuantile c self X0 alpha do_optim doSaveCDF iTree opt_method
           = Inl AttributeError"
  using assms
  by (auto simp: computeQuantile_def query_weights_def bind_err_def unassigned_def
      attr_def Let_def)

section \<open>A small forest to evaluate on\<close>

lemma demo_fit: "fit demo fresh demo_X demo_y = Inr demo_model"
  by (simp add: fit_def bind_err_def demo_def demo_X_def demo_model_def demo_leaves_def)

lemma demo_model_fields:
  "input_dim demo_model = Some 2"
  "output_sample demo_model = Some demo_y"
  "sample_nodes demo_model = Some [[1, 1], [1, 1], [2, 2], [2, 2]]"
  "nodesOfSamples demo_model = None"
  "n_points demo_model = None"
  "numJobs demo_model = None"
  by (simp_all add: demo_model_def fresh_def)

lemma demo_fields:
  "n_estimators demo = 2"
  "forest_apply demo (Arr2 d rows) = Inr (map demo_leaves rows)"
  "tree_apply demo t (Arr2 d rows) = Inr (map (\<lambda>r. demo_leaves r ! t) rows)"
  "percentile demo vals qs = Inr (map (\<lambda>q. case vals of [] \<Rightarrow> 0 | v # _ \<Rightarrow> v) qs)"
  "fmin_cobyla demo f x0 g = x0"
  "fmin_slsqp demo f x0 g eps = x0"
  by (simp_all add: demo_def)

lemma demo_check: "check_input demo_model (Arr2 2 [[1, 0]]) = Inr (Arr2 2 [[1, 0]], 1)"
  by (simp add: check_input_def check_try_def check_except_def bind_err_def attr_def
      demo_model_fields)

lemma demo_weight:
  "forest_weight [[Suc 0, Suc 0], [Suc 0, Suc 0], [2, 2], [2, 2]] [Suc 0, Suc 0]
     = [Fin (1/2), Fin (1/2), Fin 0, Fin 0]"
  by (simp add: forest_weight_def leaf_match_def n_samples_nodes_def np_div_bool_def
      np_mean_def np_sum_def Let_def upt_rec numeral_2_eq_2)

lemma demo_quantile:
  "computeQuantile demo demo_model (Arr2 2 [[1, 0]]) [1/4, 3/4] True False (-1) ''Cobyla''
     = Inr (Sequence [Fin 0, Fin 0])"
  by (simp add: computeQuantile_def demo_check query_weights_def bind_err_def attr_def
      demo_fields demo_model_fields demo_leaves_def demo_weight demo_y_def
      optim_row_def masked_def shape_result_def)

section \<open>Single-tree mode and the grid of the distribution function after fit\<close>

text \<open>
  C9 (as stated: for every \<open>i \<ge> 0\<close> the call raises \<^verbatim>\<open>AttributeError\<close>). On the model
  that \<open>fit\<close> produces from the small forest, which has two trees, the call with
  \<open>iTree = 2\<close> raises \<^verbatim>\<open>IndexError\<close>: \<^verbatim>\<open>self.estimators_[iTree]\<close> is evaluated before
  \<^verbatim>\<open>self._nodesOfSamples\<close> is read.
\<close>

theorem single_tree_index_counterexample:
  "computeQuantile demo demo_model (Arr2 2 [[1, 0]]) [1/2] True False 2 ''Cobyla''
     = Inl IndexError"
  by (simp add: computeQuantile_def demo_check query_weights_def bind_err_def
      demo_fields)

text \<open>
  C9 (amended). For every model produced by \<open>fit\<close>, every query that \<open>_check_input\<close>
  accepts and every \<open>i\<close> with \<open>0 \<le> i\<close> below the number of trees for which the leaf
  lookup of tree \<open>i\<close> returns, \<open>computeQuantile\<close> with \<open>iTree = i\<close> raises
  \<^verbatim>\<open>AttributeError\<close> and computes no quantile: \<open>fit\<close> stores the leaf assignments under
  \<open>_sample_nodes\<close>, and \<open>_nodesOfSamples\<close>, which the single-tree branch reads, is
  unassigned.
\<close>

theorem single_tree_raises_AttributeError:
  assumes "fit c fresh Xt y = Inr m"
    and "check_input m X0 = Inr (X, n)"
    and "0 \<le> i" and "nat i < n_estimators c"
    and "tree_apply c (nat i) X = Inr leaves"
  shows "computeQuantile c m X0 alpha do_optim doSaveCDF i opt_method = Inl AttributeError
     \<and> sample_nodes m \<noteq> None \<and> nodesOfSamples m = None"
proof -
  have u: "unassigned m" using assms(1) by (rule fit_fresh_unassigned)
  show ?thesis
    using computeQuantile_tree_raises[OF u assms(2-5)] fit_assigns[OF assms(1)] u
    by (simp add: unassigned_def)
qed

theorem single_tree_raises_AttributeError_witness:
  "computeQuantile demo demo_model (Arr2 2 [[1, 0]]) [1/2] True False 0 ''Cobyla''
     = Inl AttributeError"
proof -
  have "(0::int) \<le> 0" "nat 0 < n_estimators demo"
    "tree_apply demo (nat 0) (Arr2 2 [[1, 0]]) = Inr [demo_leaves [1, 0] ! 0]"
    by (simp_all add: demo_fields)
  from single_tree_raises_AttributeError[OF demo_fit demo_check this]
  show ?thesis by simp
qed

text \<open>
  C10 (as stated: every call with \<open>do_optim=False\<close> raises \<^verbatim>\<open>AttributeError\<close>). The model
  of the small forest has dimension 2; a query vector of three entries is refused by
  \<open>_check_input\<close> with \<^verbatim>\<open>ValueError\<close>, before \<^verbatim>\<open>self._n_points\<close> is read.
\<close>

theorem cdf_path_check_counterexample:
  "computeQuantile demo demo_model (Arr1 [1, 2, 3]) [1/2] False False (-1) ''Cobyla''
     = Inl ValueError"
  by (simp add: computeQuantile_def bind_err_def check_input_def check_try_def
      check_except_def attr_def demo_model_fields)

text \<open>
  C10 (amended). For every model produced by \<open>fit\<close> and every query that \<open>_check_input\<close>
  accepts, \<open>computeQuantile\<close> with \<open>do_optim=False\<close> or \<open>doSaveCDF=True\<close> raises
  \<^verbatim>\<open>AttributeError\<close> and returns no quantile: \<open>_n_points\<close> is unassigned; and
  \<open>setPrecisionOfCDF\<close>, with any number of points, raises \<^verbatim>\<open>AttributeError\<close> as well,
  since \<open>_outputSample\<close> and \<open>_numSample\<close> are unassigned while \<open>fit\<close> has assigned
  \<open>_output_sample\<close> and \<open>_n_sample\<close>.
\<close>

theorem cdf_path_raises_AttributeError:
  assumes "fit c fresh Xt y = Inr m"
    and "check_input m X0 = Inr (X, n)"
    and "doSaveCDF \<or> \<not> do_optim"
  shows "computeQuantile c m X0 alpha do_optim doSaveCDF iTree opt_method
           = Inl AttributeError
     \<and> n_points m = None
     \<and> setPrecisionOfCDF m npts = Inl AttributeError
     \<and> outputSample m = None \<and> numSample m = None
     \<and> output_sample m = Some y \<and> n_sample m \<noteq> None"
proof -
  have u: "unassigned m" using assms(1) by (rule fit_fresh_unassigned)
  show ?thesis
    using computeQuantile_cdf_raises[OF u assms(2,3)] fit_assigns[OF assms(1)] u
      setPrecisionOfCDF_unassigned_raises[OF u]
    by (simp add: unassigned_def)
qed

theorem cdf_path_raises_AttributeError_witness:
  "computeQuantile demo demo_model (Arr2 2 [[1, 0]]) [1/2] False True (-1) ''Cobyla''
     = Inl AttributeError
   \<and> setPrecisionOfCDF demo_model 0 = Inl AttributeError"
proof -
  have "True \<or> \<not> False" by simp
  from cdf_path_raises_AttributeError[OF demo_fit demo_check this]
  show ?thesis by simp
qed

section \<open>The shape of the result\<close>

lemma seq_err_map_Inr: "seq_err (map Inr vs) = Inr vs"
  by (induction vs) simp_all

lemma seq_err_InrD: "seq_err rs = Inr vs \<Longrightarrow> rs = map Inr vs"
  by (induction rs arbitrary: vs) (auto split: sum.splits)

lemma seq_err_Inr: "seq_err rs = Inr vs \<longleftrightarrow> rs = map Inr vs"
  using seq_err_map_Inr seq_err_InrD by metis

lemma seq_err_map_length: "seq_err (map f xs) = Inr vs \<Longrightarrow> length vs = length xs"
  by (auto simp: seq_err_Inr dest: arg_cong[where f=length])

lemma optim_row_length:
  assumes "optim_row c self alpha opt_method weight = Inr row"
  shows "length row = length alpha"
proof -
  obtain f where "seq_err (map f (enumerate 0 alpha)) = Inr row"
    using assms unfolding optim_row_def bind_err_def
    by (auto split: sum.splits)
  then have "length row = length (enumerate 0 alpha)" by (rule seq_err_map_length)
  then show ?thesis by simp
qed


lemma invert_row_length:
  "invert_row self alpha weight = Inr row \<Longrightarrow> length row = length alpha"
  by (auto simp: invert_row_def bind_err_def split: sum.splits dest!: seq_err_map_length)


lemma query_weights_length:
  "query_weights c self X n iTree = Inr ws \<Longrightarrow> length ws = n"
  by (auto simp: query_weights_def bind_err_def Let_def split: sum.splits if_splits)


lemma quantiles_shape:
  assumes "seq_err (map (\<lambda>w. bind_err w (\<lambda>weight.
                 if do_optim then optim_row c self alpha opt_method weight
                 else invert_row self alpha weight)) weights) = Inr quantiles"
  shows "length quantiles = length weights \<and> list_all (\<lambda>row. length row = length alpha) quantiles"
proof -
  define f where "f = (\<lambda>w. bind_err w (\<lambda>weight.
                 if do_optim then optim_row c self alpha opt_method weight
                 else invert_row self alpha weight))"
  have eq: "map f weights = map Inr quantiles"
    using assms unfolding f_def by (rule seq_err_InrD)
  have len: "length quantiles = length weights"
    using arg_cong[OF eq, of length] by simp
  have "length (quantiles ! k) = length alpha" if "k < length quantiles" for k
  proof -
    have "map f weights ! k = map Inr quantiles ! k" by (simp only: eq)
    then have fk: "f (weights ! k) = Inr (quantiles ! k)"
      using that len by simp
    show ?thesis
    proof (cases "weights ! k")
      case (Inl e)
      then show ?thesis using fk by (simp add: f_def bind_err_def)
    next
      case (Inr weight)
      then show ?thesis using fk
        by (cases do_optim) (simp_all add: f_def bind_err_def optim_row_length invert_row_length)
    qed
  qed
  then show ?thesis using len by (simp add: list_all_length)
qed


lemma concat_length_rows:
  "list_all (\<lambda>row. length row = m) rows \<Longrightarrow> length (concat rows) = length rows * m"
  by (induction rows) simp_all


lemma shape_result_cases:
  assumes "length quantiles = n" "list_all (\<lambda>row. length row = m) quantiles"
    and "shape_result quantiles n m = Inr r"
  shows "((\<exists>q. r = Scalar q) \<longleftrightarrow> n = 1 \<and> m = 1)
       \<and> ((\<exists>qs. r = Sequence qs) \<longleftrightarrow> (n = 1) \<noteq> (m = 1))
       \<and> ((\<exists>rows. r = Matrix rows) \<longleftrightarrow> n \<noteq> 1 \<and> m \<noteq> 1)
       \<and> (case r of Scalar q \<Rightarrow> True
           | Sequence qs \<Rightarrow> length qs = n * m
           | Matrix rows \<Rightarrow> length rows = n \<and> list_all (\<lambda>row. length row = m) rows)"
  using assms
  by (auto simp: shape_result_def concat_length_rows split: if_splits list.splits)


lemma computeQuantile_quantiles:
  assumes "check_input self X0 = Inr (X, n)"
    and "computeQuantile c self X0 alpha do_optim doSaveCDF iTree opt_method = Inr r"
  shows "\<exists>quantiles. length quantiles = n
           \<and> list_all (\<lambda>row. length row = length alpha) quantiles
           \<and> shape_result quantiles n (length alpha) = Inr r"
proof -
  obtain self' weights quantiles where
    w: "query_weights c self' X n iTree = Inr weights"
    and q: "seq_err (map (\<lambda>w. bind_err w (\<lambda>weight.
                 if do_optim then optim_row c self' alpha opt_method weight
                 else invert_row self' alpha weight)) weights) = Inr quantiles"
    and r: "shape_result quantiles n (length alpha) = Inr r"
    using assms unfolding computeQuantile_def bind_err_def Let_def
    by (auto split: sum.splits)
  from quantiles_shape[OF q] query_weights_length[OF w] r show ?thesis by auto
qed

text \<open>
  C5 (as stated: a sequence has length \<open>max(n, m)\<close>). With one query point and the empty
  list of levels the call returns the empty sequence, whose length is not
  \<open>max(1, 0)\<close>.
\<close>

theorem shape_empty_levels_counterexample:
  "computeQuantile demo demo_model (Arr2 2 [[1, 0]]) [] True False (-1) ''Cobyla''
     = Inr (Sequence [])
   \<and> length ([] :: npfloat list) \<noteq> max 1 (length ([] :: real list))"
  by (simp add: computeQuantile_def demo_check query_weights_def bind_err_def attr_def
      demo_fields demo_model_fields optim_row_def shape_result_def)

text \<open>
  C5 (amended). For every call of \<open>computeQuantile\<close> that returns, with \<open>n\<close> query points
  (as counted by \<open>_check_input\<close>) and \<open>m\<close> levels, the result is a scalar if and only if
  \<open>n = 1\<close> and \<open>m = 1\<close>, a sequence if and only if exactly one of \<open>n\<close>, \<open>m\<close> equals 1,
  and a matrix otherwise; the sequence has \<open>n * m\<close> entries (which is \<open>max(n, m)\<close> unless
  the other count is 0) and the matrix has \<open>n\<close> rows of \<open>m\<close> entries.
\<close>

theorem computeQuantile_shape:
  assumes "check_input self X0 = Inr (X, n)"
    and "computeQuantile c self X0 alpha do_optim doSaveCDF iTree opt_method = Inr r"
  shows "((\<exists>q. r = Scalar q) \<longleftrightarrow> n = 1 \<and> length alpha = 1)
       \<and> ((\<exists>qs. r = Sequence qs) \<longleftrightarrow> (n = 1) \<noteq> (length alpha = 1))
       \<and> ((\<exists>rows. r = Matrix rows) \<longleftrightarrow> n \<noteq> 1 \<and> length alpha \<noteq> 1)
       \<and> (case r of Scalar q \<Rightarrow> True
           | Sequence qs \<Rightarrow> length qs = n * length alpha
           | Matrix rows \<Rightarrow>
               length rows = n \<and> list_all (\<lambda>row. length row = length alpha) rows)"
proof -
  obtain quantiles where "length quantiles = n"
    "list_all (\<lambda>row. length row = length alpha) quantiles"
    "shape_result quantiles n (length alpha) = Inr r"
    using computeQuantile_quantiles[OF assms] by blast
  then show ?thesis by (rule shape_result_cases)
qed

theorem computeQuantile_shape_witness:
  "computeQuantile demo demo_model (Arr2 2 [[1, 0]]) [1/4, 3/4] True False (-1) ''Cobyla''
     = Inr (Sequence [Fin 0, Fin 0])
   \<and> length [Fin 0, Fin 0] = 1 * length [1/4, 3/4 :: real]"
  using computeQuantile_shape[OF demo_check demo_quantile] demo_quantile by simp

section \<open>A leaf without samples in single-tree mode\<close>






section \<open>The grid and the importance on a model produced by fit\<close>

text \<open>
  C6 (the code at the failing input). On every model produced by \<open>fit\<close>,
  \<open>setPrecisionOfCDF\<close> builds no grid: it reads \<open>_outputSample\<close>, which is unassigned, and
  raises \<^verbatim>\<open>AttributeError\<close>, whatever the number of points.
\<close>

theorem setPrecisionOfCDF_after_fit:
  assumes "fit c fresh Xt y = Inr m"
  shows "setPrecisionOfCDF m npts = Inl AttributeError"
  using setPrecisionOfCDF_unassigned_raises fit_fresh_unassigned[OF assms] by blast

theorem setPrecisionOfCDF_after_fit_witness:
  "setPrecisionOfCDF demo_model 0 = Inl AttributeError
   \<and> setPrecisionOfCDF demo_model 5 = Inl AttributeError"
  using setPrecisionOfCDF_after_fit[OF demo_fit] by simp

text \<open>
  C7 (the code at the failing input). On every model produced by \<open>fit\<close>,
  \<open>compute_importance\<close> returns no importance: it reads \<open>_numJobs\<close>, which is unassigned,
  and raises \<^verbatim>\<open>AttributeError\<close>.
\<close>

theorem compute_importance_after_fit:
  assumes "fit c fresh Xt y = Inr m"
  shows "compute_importance c m alpha = Inl AttributeError"
  using fit_fresh_unassigned[OF assms]
  by (simp add: compute_importance_def bind_err_def attr_def unassigned_def)

theorem compute_importance_after_fit_witness:
  "compute_importance demo demo_model [1/2] = Inl AttributeError"
  using compute_importance_after_fit[OF demo_fit] by simp

section \<open>The inversion strategy\<close>

lemma masked_map: "masked (map f xs) bs = map f (masked xs bs)"
  unfolding masked_def by (induction xs bs rule: list_induct2') simp_all

lemma set_masked: "set (masked xs bs) \<subseteq> set xs"
  unfolding masked_def by (induction xs bs rule: list_induct2') auto

lemma sorted_masked: "sorted xs \<Longrightarrow> sorted (masked xs bs)"
proof (induction xs bs rule: list_induct2')
  case (4 x xs b bs)
  have "set (masked xs bs) \<subseteq> set xs" by (rule set_masked)
  moreover have "sorted (masked xs bs)" using 4 by simp
  moreover have "masked (x # xs) (b # bs) = (if b then x # masked xs bs else masked xs bs)"
    by (simp add: masked_def)
  ultimately show ?case using 4(2) by auto
qed (simp_all add: masked_def)

lemma masked_mono:
  assumes "\<And>p. Q p \<Longrightarrow> P p"
  shows "set (masked xs (map Q ps)) \<subseteq> set (masked xs (map P ps))"
  unfolding masked_def using assms
  by (induction xs ps rule: list_induct2') auto

lemma masked_filter:
  "masked xs (map (\<lambda>x. P (F x)) xs) = filter (\<lambda>x. P (F x)) xs"
  unfolding masked_def by (induction xs) simp_all

lemma sorted_hd_Min:
  assumes "sorted xs" "xs = x # rest"
  shows "x = Min (set xs)"
  using assms by (intro Min_eqI[symmetric]) auto

lemma np_sum_mul_Fin:
  "np_sum (map2 np_mul_bool row (map Fin ws))
     = Fin (\<Sum>(b, w)\<leftarrow>zip row ws. if b then w else 0)"
  unfolding np_sum_def by (induction row ws rule: list_induct2') simp_all

lemma indicator_row_wcdf:
  "(\<Sum>(b, w)\<leftarrow>zip (map (\<lambda>v. v \<le> g) y) ws. if b then w else 0) = wcdf y ws g"
  unfolding wcdf_def by (induction y ws rule: list_induct2') simp_all

lemma sorted_linspace_real:
  assumes "a \<le> b"
  shows "sorted (linspace_real a b n)"
proof -
  define f where "f = (\<lambda>i. if n = 1 then a else a + real i * ((b - a) / real (n - 1)))"
  have "f i \<le> f j" if "i \<le> j" for i j
  proof -
    have "0 \<le> (b - a) / real (n - 1)" using assms by simp
    then have "real i * ((b - a) / real (n - 1)) \<le> real j * ((b - a) / real (n - 1))"
      using that by (intro mult_right_mono) simp_all
    then show ?thesis by (simp add: f_def)
  qed
  then have "sorted (map f [0..<n])"
    by (simp add: sorted_map sorted_wrt_iff_nth_less)
  then show ?thesis by (simp add: linspace_real_def f_def)
qed

lemma sorted_cdf_grid: "y \<noteq> [] \<Longrightarrow> sorted (cdf_grid y npts)"
  by (simp add: cdf_grid_def sorted_linspace_real)
lemma setPrecisionOfCDF_builds:
  assumes "setPrecisionOfCDF self0 npts = Inr self" "outputSample self0 = Some y" "y \<noteq> []"
  shows "yCDF self = Some (map Fin (cdf_grid y npts))
     \<and> infYY self = Some (map (\<lambda>g. map (\<lambda>v. v \<le> g) y) (cdf_grid y npts))"
  using assms
  by (auto simp: setPrecisionOfCDF_def bind_err_def attr_def cdf_grid_def series_min_def
      series_max_def comp_def split: if_splits option.splits)

lemma np_dot_indicator:
  assumes "length ws = length y"
  shows "np_dot (map (\<lambda>g. map (\<lambda>v. v \<le> g) y) gs) (map Fin ws)
           = Inr (map (\<lambda>g. Fin (wcdf y ws g)) gs)"
  using assms
  by (simp add: np_dot_def list_all_iff np_sum_mul_Fin indicator_row_wcdf comp_def)

lemma first_ge_grid:
  assumes "sorted gs" "\<exists>g\<in>set gs. a \<le> F g"
  shows "first_ge (map Fin gs) (map (\<lambda>g. Fin (F g)) gs) a
           = Inr (Fin (Min {g \<in> set gs. a \<le> F g}))"
proof -
  have m: "masked (map Fin gs) (map (\<lambda>p. np_ge_real p a) (map (\<lambda>g. Fin (F g)) gs))
          = map Fin (filter (\<lambda>g. a \<le> F g) gs)"
    using masked_filter[of gs "\<lambda>x. a \<le> x" F] by (simp add: masked_map comp_def)
  from assms(2) have "filter (\<lambda>g. a \<le> F g) gs \<noteq> []"
    by (auto simp: filter_empty_conv)
  then obtain x rest where xr: "filter (\<lambda>g. a \<le> F g) gs = x # rest"
    by (cases "filter (\<lambda>g. a \<le> F g) gs") auto
  have "sorted (filter (\<lambda>g. a \<le> F g) gs)" using assms(1) by (rule sorted_wrt_filter)
  then have "x = Min (set (filter (\<lambda>g. a \<le> F g) gs))" using xr by (rule sorted_hd_Min)
  then have "x = Min {g \<in> set gs. a \<le> F g}" by simp
  then show ?thesis unfolding first_ge_def m xr by simp
qed

lemma seq_err_all:
  "\<forall>x\<in>set xs. f x = Inr (h x) \<Longrightarrow> seq_err (map f xs) = Inr (map h xs)"
  by (induction xs) simp_all

lemma invert_row_grid:
  assumes "yCDF self = Some (map Fin gs)"
    and "infYY self = Some (map (\<lambda>g. map (\<lambda>v. v \<le> g) y) gs)"
    and "sorted gs" and "length ws = length y"
    and "list_all (\<lambda>a. \<exists>g\<in>set gs. a \<le> wcdf y ws g) alphas"
  shows "invert_row self alphas (map Fin ws)
           = Inr (map (\<lambda>a. Fin (Min {g \<in> set gs. a \<le> wcdf y ws g})) alphas)"
proof -
  have "\<forall>a\<in>set alphas.
          first_ge (map Fin gs) (map (\<lambda>g. Fin (wcdf y ws g)) gs) a
            = Inr (Fin (Min {g \<in> set gs. a \<le> wcdf y ws g}))"
    using assms(5) by (simp add: list_all_iff first_ge_grid[OF assms(3)])
  then have "seq_err (map (first_ge (map Fin gs) (map (\<lambda>g. Fin (wcdf y ws g)) gs)) alphas)
      = Inr (map (\<lambda>a. Fin (Min {g \<in> set gs. a \<le> wcdf y ws g})) alphas)"
    by (rule seq_err_all)
  then show ?thesis
    by (simp add: invert_row_def assms(1,2) attr_def bind_err_def
        np_dot_indicator[OF assms(4)])
qed

text \<open>
  What lines 202 to 204 compute on a state where \<open>setPrecisionOfCDF\<close> has returned, that
  is, where \<open>_outputSample\<close> and \<open>_numSample\<close> have been assigned from outside the class:
  the distribution function is the product of the indicator matrix with the weights,
  which at each grid value is the sum of the weights of the outputs at most that value,
  and each level gets the smallest grid value at which it is at least the level. No
  method of the class leads to such a state.
\<close>

lemma inversion_on_built_grid:
  assumes "setPrecisionOfCDF self0 npts = Inr self"
    and "outputSample self0 = Some y" and "y \<noteq> []"
    and "length ws = length y"
    and "list_all (\<lambda>a. \<exists>g\<in>set (cdf_grid y npts). a \<le> wcdf y ws g) alphas"
  shows "yCDF self = Some (map Fin (cdf_grid y npts))
     \<and> infYY self = Some (map (\<lambda>g. map (\<lambda>v. v \<le> g) y) (cdf_grid y npts))
     \<and> np_dot (map (\<lambda>g. map (\<lambda>v. v \<le> g) y) (cdf_grid y npts)) (map Fin ws)
           = Inr (map (\<lambda>g. Fin (wcdf y ws g)) (cdf_grid y npts))
     \<and> invert_row self alphas (map Fin ws)
           = Inr (map (\<lambda>a. Fin (Min {g \<in> set (cdf_grid y npts). a \<le> wcdf y ws g}))
                    alphas)"
proof -
  note b = setPrecisionOfCDF_builds[OF assms(1-3)]
  have s: "sorted (cdf_grid y npts)" using assms(3) by (rule sorted_cdf_grid)
  from b invert_row_grid[OF conjunct1[OF b] conjunct2[OF b] s assms(4,5)]
    np_dot_indicator[OF assms(4)]
  show ?thesis by simp
qed

lemma cdf_model_fields:
  "outputSample cdf_model = Some demo_y"
  "numSample cdf_model = Some 4"
  "n_points cdf_model = Some 0"
  "input_dim cdf_model = Some 2"
  "sample_nodes cdf_model = Some [[1, 1], [1, 1], [2, 2], [2, 2]]"
  by (simp_all add: cdf_model_def demo_model_def fresh_def)

lemma demo_grid: "setPrecisionOfCDF cdf_model 0 = Inr grid_model"
  by (simp add: setPrecisionOfCDF_def bind_err_def attr_def cdf_model_fields demo_y_def
      grid_model_def)

lemma grid_model_fields:
  "yCDF grid_model = Some [Fin 0, Fin 1, Fin 2, Fin 3]"
  "infYY grid_model = Some [[True, False, False, False], [True, True, False, False],
                    [True, True, True, False], [True, True, True, True]]"
  "input_dim grid_model = Some 2"
  "sample_nodes grid_model = Some [[1, 1], [1, 1], [2, 2], [2, 2]]"
  by (simp_all add: grid_model_def cdf_model_def demo_model_def fresh_def)

lemma demo_invert:
  "invert_row grid_model [1/4, 3/4] [Fin (1/2), Fin (1/2), Fin 0, Fin 0]
     = Inr [Fin 0, Fin 1]"
  by (simp add: invert_row_def np_dot_def np_sum_def first_ge_def masked_def attr_def
      bind_err_def grid_model_fields)

lemma inversion_on_built_grid_example:
  "invert_row grid_model [1/4, 3/4] (map Fin [1/2, 1/2, 0, 0]) = Inr [Fin 0, Fin 1]
   \<and> Min {g \<in> set (cdf_grid demo_y 0). 1/4 \<le> wcdf demo_y [1/2, 1/2, 0, 0] g} = 0
   \<and> Min {g \<in> set (cdf_grid demo_y 0). 3/4 \<le> wcdf demo_y [1/2, 1/2, 0, 0] g} = 1"
proof -
  have h2: "outputSample cdf_model = Some demo_y" by (simp add: cdf_model_fields)
  have h3: "demo_y \<noteq> []" by (simp add: demo_y_def)
  have h4: "length [1/2, 1/2, 0, 0 :: real] = length demo_y" by (simp add: demo_y_def)
  have h5: "list_all (\<lambda>a. \<exists>g\<in>set (cdf_grid demo_y 0).
               a \<le> wcdf demo_y [1/2, 1/2, 0, 0] g) [1/4, 3/4]"
    by (simp add: cdf_grid_def demo_y_def wcdf_def)
  from inversion_on_built_grid[OF demo_grid h2 h3 h4 h5] demo_invert
  show ?thesis by simp
qed

lemma fit_fresh_no_grid: "fit c fresh X y = Inr m \<Longrightarrow> yCDF m = None \<and> infYY m = None"
  by (auto simp: fit_def bind_err_def fresh_def
      split: sum.splits option.splits if_splits ndarray.splits)

text \<open>
  C4 (the code at the failing input). On every model produced by \<open>fit\<close>, for every query
  that \<open>_check_input\<close> accepts and every list of levels, the inversion strategy returns no
  grid value: \<open>computeQuantile\<close> with \<open>do_optim=False\<close> raises \<^verbatim>\<open>AttributeError\<close> on its way to
  \<open>setPrecisionOfCDF\<close>, and the model holds neither a grid nor an indicator matrix.
\<close>

theorem inversion_after_fit:
  assumes "fit c fresh Xt y = Inr m"
    and "check_input m X0 = Inr (X, n)"
  shows "computeQuantile c m X0 alpha False doSaveCDF iTree opt_method = Inl AttributeError
     \<and> yCDF m = None \<and> infYY m = None"
proof -
  have u: "unassigned m" using assms(1) by (rule fit_fresh_unassigned)
  have "doSaveCDF \<or> \<not> False" by simp
  from computeQuantile_cdf_raises[OF u assms(2) this] fit_fresh_no_grid[OF assms(1)]
  show ?thesis by simp
qed

theorem inversion_after_fit_witness:
  "computeQuantile demo demo_model (Arr2 2 [[1, 0]]) [1/2] False False (-1) ''Cobyla''
     = Inl AttributeError
   \<and> yCDF demo_model = None \<and> infYY demo_model = None"
  using inversion_after_fit[OF demo_fit demo_check] by simp

section \<open>Monotonicity in the level\<close>

lemma first_ge_mono:
  assumes "sorted gs" "a1 \<le> a2"
    and "first_ge (map Fin gs) cdf a1 = Inr (Fin q1)"
    and "first_ge (map Fin gs) cdf a2 = Inr (Fin q2)"
  shows "q1 \<le> q2"
proof -
  obtain r1 where m1: "masked gs (map (\<lambda>p. np_ge_real p a1) cdf) = q1 # r1"
    using assms(3)
    by (auto simp: first_ge_def masked_map split: if_splits list.splits)
  obtain r2 where m2: "masked gs (map (\<lambda>p. np_ge_real p a2) cdf) = q2 # r2"
    using assms(4)
    by (auto simp: first_ge_def masked_map split: if_splits list.splits)
  have "np_ge_real p a1" if "np_ge_real p a2" for p
    using that assms(2) by (cases p) auto
  then have "set (masked gs (map (\<lambda>p. np_ge_real p a2) cdf))
               \<subseteq> set (masked gs (map (\<lambda>p. np_ge_real p a1) cdf))"
    by (rule masked_mono)
  then have "q2 \<in> set (q1 # r1)" using m1 m2 by auto
  moreover have "sorted (q1 # r1)" using sorted_masked[OF assms(1)] m1 by metis
  ultimately show ?thesis by auto
qed

lemma invert_row_mono:
  assumes "yCDF self = Some (map Fin gs)" "sorted gs" "a1 \<le> a2"
    and "invert_row self [a1, a2] w = Inr [Fin q1, Fin q2]"
  shows "q1 \<le> q2"
proof -
  obtain cdf where "first_ge (map Fin gs) cdf a1 = Inr (Fin q1)"
    "first_ge (map Fin gs) cdf a2 = Inr (Fin q2)"
    using assms(1,4)
    by (auto simp: invert_row_def bind_err_def attr_def split: sum.splits option.splits)
  with assms(2,3) show ?thesis by (rule first_ge_mono)
qed

lemma check_sum_diff:
  "sum_list (check_function S q a2) - sum_list (check_function S q a1)
     = (a2 - a1) * (sum_list S - real (length S) * q)"
  by (induction S) (simp_all add: check_function_def Let_def algebra_simps)

lemma sum_masked_wcdf: "sum_list (masked ws (map (\<lambda>v. v \<le> q) y)) = wcdf y ws q"
  unfolding masked_def wcdf_def by (induction ws y rule: list_induct2') simp_all

lemma ieqFunc_Fin: "ieqFunc y q (map Fin ws) a = Fin (wcdf y ws q - a)"
  by (simp add: ieqFunc_def masked_map np_sum_Fin sum_masked_wcdf)

lemma wcdf_mono:
  "list_all (\<lambda>x. 0 \<le> x) ws \<Longrightarrow> q \<le> q' \<Longrightarrow> wcdf y ws q \<le> wcdf y ws q'"
  unfolding wcdf_def
  by (induction y ws rule: list_induct2') (auto intro: add_mono)

lemma support_empty_wcdf:
  "masked y (map np_nonzero (map Fin ws)) = [] \<Longrightarrow> wcdf y ws q = 0"
  unfolding masked_def wcdf_def
  by (induction y ws rule: list_induct2') (auto split: if_splits)

lemma optim_monotone:
  assumes "0 < a1" "a1 < a2" "list_all (\<lambda>x. 0 \<le> x) ws"
    and "constrained_argmin (\<lambda>q. optFunc y q (map Fin ws) a1)
           (\<lambda>q. ieqFunc y q (map Fin ws) a1) p1"
    and "constrained_argmin (\<lambda>q. optFunc y q (map Fin ws) a2)
           (\<lambda>q. ieqFunc y q (map Fin ws) a2) p2"
  shows "p1 \<le> p2"
proof (rule ccontr)
  assume "\<not> p1 \<le> p2"
  then have lt: "p2 < p1" by simp
  define S where "S = masked y (map np_nonzero (map Fin ws))"
  define L where "L = (\<lambda>a q. sum_list (check_function S q a))"
  have L: "optFunc y q (map Fin ws) a = L a q" for q a
    by (simp add: optFunc_def L_def S_def)
  have f2: "a2 \<le> wcdf y ws p2"
    using assms(5) by (simp add: constrained_argmin_def ieqFunc_Fin)
  have min1: "L a1 p1 \<le> L a1 q" if "a1 \<le> wcdf y ws q" for q
    using assms(4) that by (simp add: constrained_argmin_def ieqFunc_Fin L)
  have min2: "L a2 p2 \<le> L a2 q" if "a2 \<le> wcdf y ws q" for q
    using assms(5) that by (simp add: constrained_argmin_def ieqFunc_Fin L)
  have "wcdf y ws p2 \<le> wcdf y ws p1"
    using assms(3) lt by (intro wcdf_mono) simp_all
  then have i2: "L a2 p2 \<le> L a2 p1" using f2 by (intro min2) simp
  have i1: "L a1 p1 \<le> L a1 p2" using f2 assms(2) by (intro min1) simp
  have "S \<noteq> []"
  proof
    assume "S = []"
    then have "wcdf y ws p2 = 0" unfolding S_def by (rule support_empty_wcdf)
    then show False using f2 assms(1,2) by simp
  qed
  then have N: "0 < real (length S)" by simp
  have d: "L a2 q - L a1 q = (a2 - a1) * (sum_list S - real (length S) * q)" for q
    unfolding L_def by (rule check_sum_diff)
  have "L a2 p2 - L a1 p2 \<le> L a2 p1 - L a1 p1" using i1 i2 by simp
  then have "(a2 - a1) * (sum_list S - real (length S) * p2)
               \<le> (a2 - a1) * (sum_list S - real (length S) * p1)"
    by (simp only: d)
  then have "sum_list S - real (length S) * p2 \<le> sum_list S - real (length S) * p1"
    using assms(2) by simp
  then have "real (length S) * p1 \<le> real (length S) * p2" by simp
  then have "p1 \<le> p2" using N by simp
  then show False using lt by simp
qed

lemma demo_exact_fields:
  "percentile demo_exact vals qs = Inr (map (\<lambda>q. case vals of [] \<Rightarrow> 0 | v # _ \<Rightarrow> v) qs)"
  "fmin_cobyla demo_exact f x0 g = (if np_ge_real (g 0) 0 then 0 else 1)"
  by (simp_all add: demo_exact_def demo_def)

lemma demo_optim:
  "optim_row demo_exact demo_model [1/4, 3/4] ''Cobyla'' (map Fin [1/2, 1/2, 0, 0])
     = Inr [Fin 0, Fin 1]"
  by (simp add: optim_row_def bind_err_def attr_def demo_model_fields demo_exact_fields
      ieqFunc_def np_sum_def masked_def demo_y_def)

lemma demo_argmin_lo:
  "constrained_argmin (\<lambda>q. optFunc demo_y q (map Fin [1/2, 1/2, 0, 0]) (1/4))
     (\<lambda>q. ieqFunc demo_y q (map Fin [1/2, 1/2, 0, 0]) (1/4)) 0"
  unfolding constrained_argmin_def ieqFunc_Fin
  by (auto simp: wcdf_def optFunc_def check_function_def masked_def demo_y_def Let_def
      field_simps split: if_splits)

lemma demo_argmin_hi:
  "constrained_argmin (\<lambda>q. optFunc demo_y q (map Fin [1/2, 1/2, 0, 0]) (3/4))
     (\<lambda>q. ieqFunc demo_y q (map Fin [1/2, 1/2, 0, 0]) (3/4)) 1"
  unfolding constrained_argmin_def ieqFunc_Fin
  by (auto simp: wcdf_def optFunc_def check_function_def masked_def demo_y_def Let_def
      field_simps split: if_splits)

lemma optim_row_two_levels:
  assumes "optim_row c self [a, b] opt_method w = Inr row"
    and "output_sample self = Some y"
  shows "(opt_method = ''Cobyla'' \<and>
          (\<exists>x0 x1. row = [Fin (fmin_cobyla c (\<lambda>q. optFunc y q w a) x0
                                 (\<lambda>q. ieqFunc y q w a)),
                          Fin (fmin_cobyla c (\<lambda>q. optFunc y q w b) x1
                                 (\<lambda>q. ieqFunc y q w b))]))
       \<or> (opt_method = ''SQP'' \<and>
          (\<exists>x0 e0 x1 e1. row = [Fin (fmin_slsqp c (\<lambda>q. optFunc y q w a) x0
                                       (\<lambda>q. ieqFunc y q w a) e0),
                                Fin (fmin_slsqp c (\<lambda>q. optFunc y q w b) x1
                                       (\<lambda>q. ieqFunc y q w b) e1)]))"
proof -
  obtain y0 where r: "seq_err (map (\<lambda>(i, alphai).
         if opt_method = ''Cobyla'' then
           (if i < length y0
            then Inr (Fin (fmin_cobyla c (\<lambda>q. optFunc y q w alphai) (y0 ! i)
                             (\<lambda>q. ieqFunc y q w alphai)))
            else Inl IndexError)
         else if opt_method = ''SQP'' then
           (if i < length y0
            then (let epsilon = 1 / 10 * \<bar>y0 ! i\<bar>
                  in Inr (Fin (fmin_slsqp c (\<lambda>q. optFunc y q w alphai) (y0 ! i)
                                 (\<lambda>q. ieqFunc y q w alphai) epsilon)))
            else Inl IndexError)
         else Inl ValueError) (enumerate 0 [a, b])) = Inr row"
    using assms unfolding optim_row_def bind_err_def attr_def
    by (auto split: sum.splits)
  show ?thesis
  proof (cases "opt_method = ''Cobyla''")
    case True
    with r show ?thesis
      by (auto simp: Let_def split: if_splits sum.splits)
  next
    case False
    with r show ?thesis
      by (auto simp: Let_def split: if_splits sum.splits)
  qed
qed

lemma optim_row_monotone:
  assumes "output_sample self = Some y"
    and "list_all (\<lambda>x. 0 \<le> x) ws"
    and "0 < alpha_lo" and "alpha_lo < alpha_hi"
    and "solver_exact_on c opt_method y (map Fin ws) alpha_lo"
    and "solver_exact_on c opt_method y (map Fin ws) alpha_hi"
    and "optim_row c self [alpha_lo, alpha_hi] opt_method (map Fin ws) = Inr row"
  shows "\<exists>p_lo p_hi. row = [Fin p_lo, Fin p_hi] \<and> p_lo \<le> p_hi"
proof -
  from optim_row_two_levels[OF assms(7,1)]
  obtain p_lo p_hi where row: "row = [Fin p_lo, Fin p_hi]"
    and lo: "constrained_argmin (\<lambda>q. optFunc y q (map Fin ws) alpha_lo)
               (\<lambda>q. ieqFunc y q (map Fin ws) alpha_lo) p_lo"
    and hi: "constrained_argmin (\<lambda>q. optFunc y q (map Fin ws) alpha_hi)
               (\<lambda>q. ieqFunc y q (map Fin ws) alpha_hi) p_hi"
    using assms(5,6) unfolding solver_exact_on_def by blast
  from assms(3,4,2) lo hi have "p_lo \<le> p_hi" by (rule optim_monotone)
  with row show ?thesis by blast
qed

text \<open>
  What the optimisation branch returns for two levels \<open>0 < alpha_lo < alpha_hi\<close> is
  ordered when the weights are finite and non-negative and the solver keeps its contract
  on the two problems it is given. The small forest with the solver that tries 0, then 1,
  is an instance.
\<close>

lemma optim_row_monotone_example:
  "optim_row demo_exact demo_model [1/4, 3/4] ''Cobyla'' (map Fin [1/2, 1/2, 0, 0])
     = Inr [Fin 0, Fin 1]
   \<and> solver_exact_on demo_exact ''Cobyla'' demo_y (map Fin [1/2, 1/2, 0, 0]) (1/4)
   \<and> solver_exact_on demo_exact ''Cobyla'' demo_y (map Fin [1/2, 1/2, 0, 0]) (3/4)"
proof -
  have "fmin_cobyla demo_exact (\<lambda>q. optFunc demo_y q (map Fin [1/2, 1/2, 0, 0]) (1/4)) x0
          (\<lambda>q. ieqFunc demo_y q (map Fin [1/2, 1/2, 0, 0]) (1/4)) = 0" for x0
    by (simp add: demo_exact_fields ieqFunc_def np_sum_def masked_def demo_y_def)
  moreover
  have "fmin_cobyla demo_exact (\<lambda>q. optFunc demo_y q (map Fin [1/2, 1/2, 0, 0]) (3/4)) x0
          (\<lambda>q. ieqFunc demo_y q (map Fin [1/2, 1/2, 0, 0]) (3/4)) = 1" for x0
    by (simp add: demo_exact_fields ieqFunc_def np_sum_def masked_def demo_y_def)
  ultimately show ?thesis
    using demo_optim demo_argmin_lo demo_argmin_hi
    by (simp add: solver_exact_on_def)
qed

text \<open>
  C8 (the code at the failing input). On every model produced by \<open>fit\<close>, for every query
  that \<open>_check_input\<close> accepts and every two levels \<open>alpha_lo < alpha_hi\<close>, the inversion
  strategy returns no quantiles to compare: \<open>computeQuantile\<close> with \<open>do_optim=False\<close>
  raises \<^verbatim>\<open>AttributeError\<close>.
\<close>

theorem inversion_levels_after_fit:
  assumes "fit c fresh Xt y = Inr m"
    and "check_input m X0 = Inr (X, n)"
    and "alpha_lo < alpha_hi"
  shows "computeQuantile c m X0 [alpha_lo, alpha_hi] False doSaveCDF iTree opt_method
           = Inl AttributeError"
proof -
  have u: "unassigned m" using assms(1) by (rule fit_fresh_unassigned)
  have "doSaveCDF \<or> \<not> False" by simp
  from computeQuantile_cdf_raises[OF u assms(2) this] show ?thesis .
qed

theorem inversion_levels_after_fit_witness:
  "computeQuantile demo demo_model (Arr2 2 [[1, 0]]) [1/4, 3/4] False False (-1) ''SQP''
     = Inl AttributeError"
proof -
  have "(1/4 :: real) < 3/4" by simp
  from inversion_levels_after_fit[OF demo_fit demo_check this] show ?thesis .
qed

end
